theory Spec2Isabelle
  imports Main "HOL-Library.AList"
begin

section \<open>The CoWork Manager API: rooms and reservations held in memory\<close>

text \<open>
  A shallow embedding of \<^verbatim>\<open>main.py\<close>. The two module-level dictionaries and the two
  counters form the state; every route handler is a function from the state and its
  arguments to the state after the call together with the outcome, which is either the
  exception that left the handler or the response it returned. The state is returned on
  both paths, so that what a failing call leaves behind is something to prove, not
  something the types decide.
\<close>

subsection \<open>Python strings\<close>

text \<open>
  A Python \<^verbatim>\<open>str\<close> is modelled as a \<^typ>\<open>string\<close> whose characters are the code points
  below 256. \<^verbatim>\<open>str.isspace\<close> holds there for U+0009 to U+000D, U+001C to U+0020,
  U+0085 and U+00A0; \<^verbatim>\<open>str.lower\<close> maps A to Z, and U+00C0 to U+00DE except U+00D7,
  to the code point 32 above, which is the same code point with bit 5 set.
\<close>

definition isspace :: "char \<Rightarrow> bool" where
  "isspace c =
     (let n = (of_char c :: nat)
      in (9 \<le> n \<and> n \<le> 13) \<or> (28 \<le> n \<and> n \<le> 32) \<or> n = 133 \<or> n = 160)"

fun set_bit5 :: "char \<Rightarrow> char" where
  "set_bit5 (Char b0 b1 b2 b3 b4 b5 b6 b7) = Char b0 b1 b2 b3 b4 True b6 b7"

definition lower_char :: "char \<Rightarrow> char" where
  "lower_char c =
     (let n = (of_char c :: nat)
      in if (65 \<le> n \<and> n \<le> 90) \<or> (192 \<le> n \<and> n \<le> 222 \<and> n \<noteq> 215)
         then set_bit5 c else c)"

definition strip :: "string \<Rightarrow> string" where
  "strip s = rev (dropWhile isspace (rev (dropWhile isspace s)))"

definition lower :: "string \<Rightarrow> string" where
  "lower s = map lower_char s"

subsection \<open>Python date-times\<close>

text \<open>
  \<^verbatim>\<open>datetime\<close> belongs to the standard library, not to the repository. A value is the
  seven calendar fields and \<open>tzinfo\<close>, here the UTC offset in microseconds, \<open>None\<close> for a
  naive value.
\<close>

record datetime =
  year :: nat
  month :: nat
  day :: nat
  hour :: nat
  minute :: nat
  second :: nat
  microsecond :: nat
  tzinfo :: "int option"

text \<open>
  The program calls the library in two places: \<^verbatim>\<open>datetime.fromisoformat\<close> and the
  comparison \<open><=\<close>. The parser is an argument, \<open>fromiso\<close>, of every function below that
  parses, so that what is proved for every \<open>fromiso\<close> holds for the parser of whichever
  interpreter runs the program. Where a concrete string has to be evaluated, the argument
  is \<open>fromisoformat\<close>, defined next: the parser of CPython 3.11, function by function
  after \<^verbatim>\<open>_datetimemodule.c\<close>, with \<open>None\<close> for its \<^verbatim>\<open>ValueError\<close>.

  That parser works on the UTF-8 bytes of the string, which C ends with a zero byte:
  \<open>byte_at\<close> reads a byte, and the zero behind the last one.
\<close>

definition utf8 :: "string \<Rightarrow> nat list" where
  "utf8 s =
     concat (map (\<lambda>c. let n = (of_char c :: nat)
                       in if n < 128 then [n] else [192 + n div 64, 128 + n mod 64]) s)"

definition byte_at :: "nat list \<Rightarrow> nat \<Rightarrow> nat" where
  "byte_at b i = (if i < length b then b ! i else 0)"

definition is_digit :: "nat \<Rightarrow> bool" where
  "is_digit c = (48 \<le> c \<and> c \<le> 57)"

text \<open>
  \<^verbatim>\<open>parse_digits\<close>: exactly \<open>n\<close> decimal digits from position \<open>pos\<close>.
\<close>

fun digits_val :: "nat list \<Rightarrow> nat \<Rightarrow> nat option" where
  "digits_val [] acc = Some acc"
| "digits_val (c # cs) acc =
     (if is_digit c then digits_val cs (10 * acc + (c - 48)) else None)"

definition parse_digits :: "nat list \<Rightarrow> nat \<Rightarrow> nat \<Rightarrow> nat option" where
  "parse_digits b pos n =
     (if length (take n (drop pos b)) = n then digits_val (take n (drop pos b)) 0 else None)"

definition skip_digits :: "nat list \<Rightarrow> nat \<Rightarrow> nat" where
  "skip_digits b p = p + length (takeWhile is_digit (drop p b))"

text \<open>
  Where the date ends: after 7, 8 or 10 bytes, decided by the fifth and sixth byte
  (\<open>-\<close> is 45, \<open>W\<close> is 87) and, for the week formats, by what follows.
\<close>

definition find_isoformat_datetime_separator :: "nat list \<Rightarrow> nat option" where
  "find_isoformat_datetime_separator b =
     (if length b = 7 then Some 7
      else if byte_at b 4 = 45 then
        (if byte_at b 5 = 87 then
           (if length b < 8 then None
            else if 8 < length b \<and> byte_at b 8 = 45 then
              (if length b = 9 then None
               else if 10 < length b \<and> is_digit (byte_at b 10) then Some 8
               else Some 10)
            else Some 8)
         else Some 10)
      else if byte_at b 4 = 87 then
        (if skip_digits b 7 < 9 then Some (skip_digits b 7)
         else if skip_digits b 7 mod 2 = 0 then Some 7
         else Some 8)
      else Some 8)"

text \<open>The proleptic Gregorian calendar: ordinals of days, counted from 1 January of year 1.\<close>

definition is_leap :: "nat \<Rightarrow> bool" where
  "is_leap y = (y mod 4 = 0 \<and> (y mod 100 \<noteq> 0 \<or> y mod 400 = 0))"

definition days_in_month :: "nat \<Rightarrow> nat \<Rightarrow> nat" where
  "days_in_month y m =
     (if m = 2 \<and> is_leap y then 29
      else [0, 31, 28, 31, 30, 31, 30, 31, 31, 30, 31, 30, 31] ! m)"

definition days_before_year :: "nat \<Rightarrow> nat" where
  "days_before_year y = (y - 1) * 365 + (y - 1) div 4 - (y - 1) div 100 + (y - 1) div 400"

definition days_before_month :: "nat \<Rightarrow> nat \<Rightarrow> nat" where
  "days_before_month y m = sum_list (map (days_in_month y) [1 ..< m])"

definition ymd2ord :: "nat \<Rightarrow> nat \<Rightarrow> nat \<Rightarrow> nat" where
  "ymd2ord y m d = days_before_year y + days_before_month y m + d"

function month_day :: "nat \<Rightarrow> nat \<Rightarrow> nat \<Rightarrow> nat \<times> nat" where
  "month_day y m n =
     (if m < 12 \<and> days_in_month y m \<le> n then month_day y (Suc m) (n - days_in_month y m)
      else (m, n + 1))"
  by pat_completeness auto
termination
  by (relation "measure (\<lambda>(y, m, n). 12 - m)") auto

definition ord2ymd :: "nat \<Rightarrow> nat \<times> nat \<times> nat" where
  "ord2ymd ordinal =
     (let n0 = ordinal - 1;
          n400 = n0 div 146097; r400 = n0 mod 146097;
          n100 = r400 div 36524; r100 = r400 mod 36524;
          n4 = r100 div 1461; r4 = r100 mod 1461;
          n1 = r4 div 365; r1 = r4 mod 365;
          y = n400 * 400 + 1 + n100 * 100 + n4 * 4 + n1
      in if n1 = 4 \<or> n100 = 4 then (y - 1, 12, 31)
         else (y, month_day y 1 r1))"

text \<open>
  ISO week dates. Week 53 exists in the years that start on a Thursday, and in the leap
  years that start on a Wednesday. Year 0 has no date the constructor accepts.
\<close>

definition iso_week1_monday :: "nat \<Rightarrow> nat" where
  "iso_week1_monday y =
     (let first_day = ymd2ord y 1 1;
          first_weekday = (first_day + 6) mod 7;
          week1_monday = first_day - first_weekday
      in if 3 < first_weekday then week1_monday + 7 else week1_monday)"

definition iso_to_ymd :: "nat \<Rightarrow> nat \<Rightarrow> nat \<Rightarrow> (nat \<times> nat \<times> nat) option" where
  "iso_to_ymd y w d =
     (if y = 0 then None
      else if (w = 0 \<or> 53 \<le> w)
              \<and> \<not> (w = 53 \<and> ((ymd2ord y 1 1 + 6) mod 7 = 3
                                \<or> ((ymd2ord y 1 1 + 6) mod 7 = 2 \<and> is_leap y)))
      then None
      else if d = 0 \<or> 8 \<le> d then None
      else Some (ord2ymd (iso_week1_monday y + (w - 1) * 7 + d - 1)))"

text \<open>
  The date: \<open>YYYY-MM-DD\<close>, \<open>YYYYMMDD\<close>, \<open>YYYY-Www[-D]\<close> or \<open>YYYYWww[D]\<close>.
\<close>

definition parse_isoformat_week :: "nat list \<Rightarrow> nat \<Rightarrow> nat \<Rightarrow> bool \<Rightarrow> nat \<Rightarrow> (nat \<times> nat \<times> nat) option" where
  "parse_isoformat_week b len y uses_separator cur =
     (case parse_digits b cur 2 of
        None \<Rightarrow> None
      | Some w \<Rightarrow>
          (if cur + 2 < len then
             (if uses_separator \<and> byte_at b (cur + 2) \<noteq> 45 then None
              else (case parse_digits b (if uses_separator then cur + 3 else cur + 2) 1 of
                      None \<Rightarrow> None
                    | Some d \<Rightarrow> iso_to_ymd y w d))
           else iso_to_ymd y w 1))"

definition parse_isoformat_date :: "nat list \<Rightarrow> nat \<Rightarrow> (nat \<times> nat \<times> nat) option" where
  "parse_isoformat_date b len =
     (case parse_digits b 0 4 of
        None \<Rightarrow> None
      | Some y \<Rightarrow>
          (let uses_separator = (byte_at b 4 = 45);
               cur = (if uses_separator then 5 else 4)
           in if byte_at b cur = 87 then parse_isoformat_week b len y uses_separator (cur + 1)
              else (case parse_digits b cur 2 of
                      None \<Rightarrow> None
                    | Some m \<Rightarrow>
                        (if uses_separator \<and> byte_at b (cur + 2) \<noteq> 45 then None
                         else (case parse_digits b
                                      (if uses_separator then cur + 3 else cur + 2) 2 of
                                 None \<Rightarrow> None
                               | Some d \<Rightarrow> Some (y, m, d))))))"

text \<open>
  The loop over \<open>HH\<close>, \<open>MM\<close>, \<open>SS\<close> between \<open>p\<close> and \<open>p_end\<close>: two digits each; the
  byte after the hour decides whether colons (byte 58) separate the components. It
  returns the components read, and either whether the byte it stopped on is not the
  final zero, or the position where a fraction starts (after a point, byte 46, or a
  comma, byte 44, or directly after the seconds).
\<close>

function hh_mm_ss ::
    "nat list \<Rightarrow> nat \<Rightarrow> nat \<Rightarrow> nat \<Rightarrow> bool \<Rightarrow> (nat list \<times> (bool + nat)) option" where
  "hh_mm_ss b i p p_end has_separator =
     (case parse_digits b p 2 of
        None \<Rightarrow> None
      | Some v \<Rightarrow>
          (let c = byte_at b (p + 2);
               sep = (if i = 0 then c = 58 else has_separator)
           in if p_end \<le> p + 3 then Some ([v], Inl (c \<noteq> 0))
              else if sep \<and> c = 58 then
                (if 2 \<le> i then Some ([v], Inr (p + 3))
                 else (case hh_mm_ss b (Suc i) (p + 3) p_end sep of
                         None \<Rightarrow> None
                       | Some (vs, r) \<Rightarrow> Some (v # vs, r)))
              else if c = 46 \<or> c = 44 then Some ([v], Inr (p + 3))
              else if \<not> sep then
                (if 2 \<le> i then Some ([v], Inr (p + 2))
                 else (case hh_mm_ss b (Suc i) (p + 2) p_end sep of
                         None \<Rightarrow> None
                       | Some (vs, r) \<Rightarrow> Some (v # vs, r)))
              else None))"
  by pat_completeness auto
termination
  by (relation "measure (\<lambda>(b, i, p, p_end, has_separator). 3 - i)") auto

text \<open>
  The fraction: up to six digits are read and scaled to microseconds, further digits
  are skipped. The flag tells whether anything but the final zero follows.
\<close>

definition parse_hh_mm_ss_ff ::
    "nat list \<Rightarrow> nat \<Rightarrow> nat \<Rightarrow> ((nat \<times> nat \<times> nat \<times> nat) \<times> bool) option" where
  "parse_hh_mm_ss_ff b p p_end =
     (case hh_mm_ss b 0 p p_end True of
        None \<Rightarrow> None
      | Some (vs, r) \<Rightarrow>
          (let comps = vs @ replicate (3 - length vs) 0
           in case r of
                Inl trailing \<Rightarrow> Some ((comps ! 0, comps ! 1, comps ! 2, 0), trailing)
              | Inr q \<Rightarrow>
                  (let to_parse = min 6 (p_end - q)
                   in case parse_digits b q to_parse of
                        None \<Rightarrow> None
                      | Some f \<Rightarrow>
                          Some ((comps ! 0, comps ! 1, comps ! 2, f * 10 ^ (6 - to_parse)),
                                byte_at b (skip_digits b (q + to_parse)) \<noteq> 0))))"

text \<open>
  The time with its optional zone. The zone starts at the first \<open>Z\<close> (byte 90), \<open>+\<close>
  (43) or \<open>-\<close>; what the time leaves unread before a zone is ignored, as the C code
  does. An offset of zero whole seconds is UTC; any other must lie strictly between
  minus and plus 24 hours.
\<close>

fun find_tz :: "nat list \<Rightarrow> nat" where
  "find_tz [] = 0"
| "find_tz (c # cs) = (if c = 90 \<or> c = 43 \<or> c = 45 then 0 else Suc (find_tz cs))"

definition tzinfo_from_isoformat_results :: "int \<Rightarrow> int \<Rightarrow> int option" where
  "tzinfo_from_isoformat_results tzoffset tzusec =
     (if tzoffset = 0 then Some 0
      else (let td = tzoffset * 1000000 + tzusec
            in if - 86400000000 < td \<and> td < 86400000000 then Some td else None))"

definition parse_isoformat_time ::
    "nat list \<Rightarrow> nat \<Rightarrow> ((nat \<times> nat \<times> nat \<times> nat) \<times> int option) option" where
  "parse_isoformat_time b p =
     (let tzinfo_pos = p + find_tz (drop p b)
      in case parse_hh_mm_ss_ff b p tzinfo_pos of
           None \<Rightarrow> None
         | Some (t, trailing) \<Rightarrow>
             (if tzinfo_pos = length b then (if trailing then None else Some (t, None))
              else if byte_at b tzinfo_pos = 90 then
                (if byte_at b (tzinfo_pos + 1) \<noteq> 0 then None else Some (t, Some 0))
              else (case parse_hh_mm_ss_ff b (tzinfo_pos + 1) (length b) of
                      None \<Rightarrow> None
                    | Some ((h, m, s, us), trailing') \<Rightarrow>
                        (if trailing' then None
                         else (let tzsign = (if byte_at b tzinfo_pos = 45 then - 1 else 1)
                               in case tzinfo_from_isoformat_results
                                         (tzsign * (int h * 3600 + int m * 60 + int s))
                                         (tzsign * int us) of
                                    None \<Rightarrow> None
                                  | Some off \<Rightarrow> Some (t, Some off))))))"

text \<open>The range checks of the constructor, and the parser itself.\<close>

definition check_fields :: "datetime \<Rightarrow> bool" where
  "check_fields d =
     (1 \<le> year d \<and> year d \<le> 9999 \<and> 1 \<le> month d \<and> month d \<le> 12
      \<and> 1 \<le> day d \<and> day d \<le> days_in_month (year d) (month d)
      \<and> hour d \<le> 23 \<and> minute d \<le> 59 \<and> second d \<le> 59 \<and> microsecond d \<le> 999999)"

definition fromisoformat :: "string \<Rightarrow> datetime option" where
  "fromisoformat date_string =
     (if length date_string < 7 then None
      else (let b = utf8 date_string
            in case find_isoformat_datetime_separator b of
                 None \<Rightarrow> None
               | Some sep \<Rightarrow>
                   (case parse_isoformat_date b sep of
                      None \<Rightarrow> None
                    | Some (y, mo, d) \<Rightarrow>
                        (case (if sep < length b
                               then parse_isoformat_time b
                                      (if byte_at b sep < 128 then sep + 1 else sep + 2)
                               else Some ((0, 0, 0, 0), None)) of
                           None \<Rightarrow> None
                         | Some ((h, mi, s, us), tz) \<Rightarrow>
                             (let dt = \<lparr>year = y, month = mo, day = d, hour = h, minute = mi,
                                       second = s, microsecond = us, tzinfo = tz\<rparr>
                              in if check_fields dt then Some dt else None)))))"

text \<open>
  Ordering. The position of a value on the time line of its own clock, in microseconds
  since the start of the proleptic Gregorian calendar.
\<close>

definition timedelta_us :: "nat \<Rightarrow> nat \<Rightarrow> nat \<Rightarrow> nat \<Rightarrow> int" where
  "timedelta_us h m s us = ((int h * 60 + int m) * 60 + int s) * 1000000 + int us"

definition wall_us :: "datetime \<Rightarrow> int" where
  "wall_us d =
     int (ymd2ord (year d) (month d) (day d)) * 86400000000
       + timedelta_us (hour d) (minute d) (second d) (microsecond d)"

subsection \<open>Exceptions and responses\<close>

text \<open>
  What can leave a handler: an \<^verbatim>\<open>HTTPException\<close> with its status code and the text of
  its \<^verbatim>\<open>detail\<close>, the rejection of a request body by its pydantic model (answered by
  the framework before the handler runs), and a \<^verbatim>\<open>TypeError\<close> that nothing catches.
\<close>

datatype error = HTTPException nat string | RequestValidationError | TypeError

text \<open>
  \<open>fin <= inicio\<close> on two date-times: two naive values compare by their fields, two
  aware values by their instants, and Python raises \<^verbatim>\<open>TypeError\<close> when one is naive
  and the other aware.
\<close>

definition dt_le :: "datetime \<Rightarrow> datetime \<Rightarrow> error + bool" where
  "dt_le a b =
     (case (tzinfo a, tzinfo b) of
        (None, None) \<Rightarrow> Inr (wall_us a \<le> wall_us b)
      | (Some oa, Some ob) \<Rightarrow> Inr (wall_us a - oa \<le> wall_us b - ob)
      | _ \<Rightarrow> Inl TypeError)"

definition fecha_invalida :: string where
  "fecha_invalida =
     ''Fecha inv'' @ [CHR 0xE1] @ ''lida (use ISO-8601). Ej: 2026-01-20T10:00:00''"

definition parse_iso :: "(string \<Rightarrow> datetime option) \<Rightarrow> string \<Rightarrow> error + datetime" where
  "parse_iso fromiso dt_str =
     (case fromiso dt_str of
        Some d \<Rightarrow> Inr d
      | None \<Rightarrow> Inl (HTTPException 400 fecha_invalida))"

subsection \<open>Models\<close>

record SalaCreate =
  nombre :: string
  capacidad :: int
  ubicacion :: string

record ReservaCreate =
  sala_id :: int
  nombre_solicitante :: string
  fecha_inicio :: string
  fecha_fin :: string

record ReservaPatch =
  fecha_fin :: string

record SalaOut =
  id :: int
  nombre :: string
  capacidad :: int
  ubicacion :: string

record ReservaOut =
  id :: int
  sala_id :: int
  nombre_solicitante :: string
  fecha_inicio :: string
  fecha_fin :: string

text \<open>The constraints the \<^verbatim>\<open>Field\<close> declarations put on a request body.\<close>

definition SalaCreate_valid :: "SalaCreate \<Rightarrow> bool" where
  "SalaCreate_valid p =
     (1 \<le> length (SalaCreate.nombre p) \<and> 1 \<le> SalaCreate.capacidad p
      \<and> 1 \<le> length (SalaCreate.ubicacion p))"

definition ReservaCreate_valid :: "ReservaCreate \<Rightarrow> bool" where
  "ReservaCreate_valid p =
     (1 \<le> ReservaCreate.sala_id p \<and> 1 \<le> length (ReservaCreate.nombre_solicitante p))"

datatype body =
    NoContent
  | IdMensaje int string
  | IdMensajeFechaFin int string string
  | Sala SalaOut
  | Salas "SalaOut list"
  | Reservas "ReservaOut list"

type_synonym response = "nat \<times> body"

subsection \<open>The in-memory database\<close>

text \<open>
  A Python \<^verbatim>\<open>dict\<close> keeps its keys in insertion order, so each store is an association
  list: \<open>d[k] = v\<close> is \<^const>\<open>AList.update\<close> (in place for a key already there, at the
  end for a new one), \<open>del d[k]\<close> is \<^const>\<open>AList.delete\<close>, \<open>d.get(k)\<close> is
  \<^const>\<open>map_of\<close>. A dictionary has no key twice, which is \<open>dict_ok\<close>.
\<close>

record state =
  salas :: "(int \<times> SalaOut) list"
  reservas :: "(int \<times> ReservaOut) list"
  next_sala_id :: int
  next_reserva_id :: int

definition init :: state where
  "init = \<lparr>salas = [], reservas = [], next_sala_id = 1, next_reserva_id = 1\<rparr>"

definition has_key :: "('k \<times> 'v) list \<Rightarrow> 'k \<Rightarrow> bool" where
  "has_key d k = (k \<in> set (map fst d))"

definition dict_ok :: "state \<Rightarrow> bool" where
  "dict_ok st = (distinct (map fst (salas st)) \<and> distinct (map fst (reservas st)))"

subsection \<open>Rooms\<close>

definition listar_salas :: "state \<Rightarrow> state \<times> (error + response)" where
  "listar_salas st = (st, Inr (200, Salas (map snd (salas st))))"

definition obtener_sala :: "state \<Rightarrow> int \<Rightarrow> state \<times> (error + response)" where
  "obtener_sala st sid =
     (case map_of (salas st) sid of
        None \<Rightarrow> (st, Inl (HTTPException 404 ''Sala no encontrada''))
      | Some sala \<Rightarrow> (st, Inr (200, Sala sala)))"

definition crear_sala :: "state \<Rightarrow> SalaCreate \<Rightarrow> state \<times> (error + response)" where
  "crear_sala st payload =
     (if list_ex (\<lambda>s. lower (strip (SalaOut.nombre s))
                        = lower (strip (SalaCreate.nombre payload)))
           (map snd (salas st))
      then (st, Inl (HTTPException 400 ''Nombre duplicado''))
      else (let sala = \<lparr>SalaOut.id = next_sala_id st,
                        SalaOut.nombre = strip (SalaCreate.nombre payload),
                        SalaOut.capacidad = SalaCreate.capacidad payload,
                        SalaOut.ubicacion = strip (SalaCreate.ubicacion payload)\<rparr>
            in (st\<lparr>salas := AList.update (next_sala_id st) sala (salas st),
                    next_sala_id := next_sala_id st + 1\<rparr>,
                Inr (201, IdMensaje (SalaOut.id sala) ''Creado''))))"

definition eliminar_sala :: "state \<Rightarrow> int \<Rightarrow> state \<times> (error + response)" where
  "eliminar_sala st sid =
     (if \<not> has_key (salas st) sid
      then (st, Inl (HTTPException 404 ''Sala no encontrada''))
      else (let st1 = st\<lparr>salas := AList.delete sid (salas st)\<rparr>;
                to_delete = map fst (filter (\<lambda>(rid, r). ReservaOut.sala_id r = sid)
                                            (reservas st1))
            in (st1\<lparr>reservas := fold AList.delete to_delete (reservas st1)\<rparr>,
                Inr (204, NoContent))))"

subsection \<open>Reservations\<close>

definition fin_no_mayor :: error where
  "fin_no_mayor = HTTPException 400 ''fecha_fin debe ser mayor a fecha_inicio''"

definition crear_reserva ::
    "(string \<Rightarrow> datetime option) \<Rightarrow> state \<Rightarrow> ReservaCreate \<Rightarrow> state \<times> (error + response)" where
  "crear_reserva fromiso st payload =
     (if \<not> has_key (salas st) (ReservaCreate.sala_id payload)
      then (st, Inl (HTTPException 400 ''sala_id no existe''))
      else (case parse_iso fromiso (ReservaCreate.fecha_inicio payload) of
              Inl e \<Rightarrow> (st, Inl e)
            | Inr inicio \<Rightarrow>
                (case parse_iso fromiso (ReservaCreate.fecha_fin payload) of
                   Inl e \<Rightarrow> (st, Inl e)
                 | Inr fin \<Rightarrow>
                     (case dt_le fin inicio of
                        Inl e \<Rightarrow> (st, Inl e)
                      | Inr True \<Rightarrow> (st, Inl fin_no_mayor)
                      | Inr False \<Rightarrow>
                          (let reserva =
                                 \<lparr>ReservaOut.id = next_reserva_id st,
                                  ReservaOut.sala_id = ReservaCreate.sala_id payload,
                                  ReservaOut.nombre_solicitante =
                                    strip (ReservaCreate.nombre_solicitante payload),
                                  ReservaOut.fecha_inicio = ReservaCreate.fecha_inicio payload,
                                  ReservaOut.fecha_fin = ReservaCreate.fecha_fin payload\<rparr>
                           in (st\<lparr>reservas := AList.update (next_reserva_id st) reserva
                                                 (reservas st),
                                   next_reserva_id := next_reserva_id st + 1\<rparr>,
                               Inr (201, IdMensaje (ReservaOut.id reserva) ''Creado'')))))))"

definition historial_reservas :: "state \<Rightarrow> int option \<Rightarrow> state \<times> (error + response)" where
  "historial_reservas st filtro =
     (let all_res = map snd (reservas st)
      in (st, Inr (200, Reservas
            (case filtro of
               None \<Rightarrow> all_res
             | Some sid \<Rightarrow> filter (\<lambda>r. ReservaOut.sala_id r = sid) all_res))))"

definition modificar_reserva ::
    "(string \<Rightarrow> datetime option) \<Rightarrow> state \<Rightarrow> int \<Rightarrow> ReservaPatch
       \<Rightarrow> state \<times> (error + response)" where
  "modificar_reserva fromiso st rid payload =
     (case map_of (reservas st) rid of
        None \<Rightarrow> (st, Inl (HTTPException 404 ''Reserva no encontrada''))
      | Some reserva \<Rightarrow>
          (case parse_iso fromiso (ReservaOut.fecha_inicio reserva) of
             Inl e \<Rightarrow> (st, Inl e)
           | Inr inicio \<Rightarrow>
               (case parse_iso fromiso (ReservaPatch.fecha_fin payload) of
                  Inl e \<Rightarrow> (st, Inl e)
                | Inr nueva_fin \<Rightarrow>
                    (case dt_le nueva_fin inicio of
                       Inl e \<Rightarrow> (st, Inl e)
                     | Inr True \<Rightarrow> (st, Inl fin_no_mayor)
                     | Inr False \<Rightarrow>
                         (let reserva' = reserva\<lparr>ReservaOut.fecha_fin :=
                                                   ReservaPatch.fecha_fin payload\<rparr>
                          in (st\<lparr>reservas := AList.update rid reserva' (reservas st)\<rparr>,
                              Inr (200, IdMensajeFechaFin (ReservaOut.id reserva')
                                          ''Actualizado''
                                          (ReservaOut.fecha_fin reserva'))))))))"

definition cancelar_reserva :: "state \<Rightarrow> int \<Rightarrow> state \<times> (error + response)" where
  "cancelar_reserva st rid =
     (if \<not> has_key (reservas st) rid
      then (st, Inl (HTTPException 404 ''Reserva no encontrada''))
      else (st\<lparr>reservas := AList.delete rid (reservas st)\<rparr>, Inr (204, NoContent)))"

subsection \<open>Requests\<close>

text \<open>
  The eight routes. A request body is checked against its model before the handler is
  called; a body that fails is answered without the handler running.
\<close>

datatype request =
    GetSalas
  | GetSala int
  | PostSalas SalaCreate
  | DeleteSala int
  | PostReservas ReservaCreate
  | GetReservas "int option"
  | PatchReserva int ReservaPatch
  | DeleteReserva int

fun serve ::
    "(string \<Rightarrow> datetime option) \<Rightarrow> state \<Rightarrow> request \<Rightarrow> state \<times> (error + response)" where
  "serve fromiso st GetSalas = listar_salas st"
| "serve fromiso st (GetSala sid) = obtener_sala st sid"
| "serve fromiso st (PostSalas p) =
     (if SalaCreate_valid p then crear_sala st p else (st, Inl RequestValidationError))"
| "serve fromiso st (DeleteSala sid) = eliminar_sala st sid"
| "serve fromiso st (PostReservas p) =
     (if ReservaCreate_valid p then crear_reserva fromiso st p
      else (st, Inl RequestValidationError))"
| "serve fromiso st (GetReservas filtro) = historial_reservas st filtro"
| "serve fromiso st (PatchReserva rid p) = modificar_reserva fromiso st rid p"
| "serve fromiso st (DeleteReserva rid) = cancelar_reserva st rid"

fun run :: "(string \<Rightarrow> datetime option) \<Rightarrow> state \<Rightarrow> request list \<Rightarrow> state" where
  "run fromiso st [] = st"
| "run fromiso st (r # rs) = run fromiso (fst (serve fromiso st r)) rs"

subsection \<open>Invariants and example data\<close>

text \<open>
  Two properties of a state. \<open>ref_integrity\<close>: the room of every stored reservation is a
  key of the room store. \<open>fechas_ok\<close>: both date-time strings of every stored reservation
  are accepted by the parser \<open>fromiso\<close>.
\<close>

definition ref_integrity :: "state \<Rightarrow> bool" where
  "ref_integrity st =
     list_all (\<lambda>(rid, r). has_key (salas st) (ReservaOut.sala_id r)) (reservas st)"

definition fechas_ok :: "(string \<Rightarrow> datetime option) \<Rightarrow> state \<Rightarrow> bool" where
  "fechas_ok fromiso st =
     list_all (\<lambda>(rid, r). fromiso (ReservaOut.fecha_inicio r) \<noteq> None
                         \<and> fromiso (ReservaOut.fecha_fin r) \<noteq> None) (reservas st)"

text \<open>
  The requests of the worked example, the naive date-times of 20 January 2026 on the
  hour, and three states: the one with the single room of the example, that state with
  the example's reservation ending at a given time, and a state with two rooms and three
  reservations.
\<close>

definition sala_a :: SalaCreate where
  "sala_a = \<lparr>SalaCreate.nombre = ''Sala A'', capacidad = 4, ubicacion = ''Piso 1''\<rparr>"

definition reserva_ana :: ReservaCreate where
  "reserva_ana =
     \<lparr>ReservaCreate.sala_id = 1, nombre_solicitante = ''Ana'',
      fecha_inicio = ''2026-01-20T10:00:00'', fecha_fin = ''2026-01-20T11:00:00''\<rparr>"

definition naive_2026_01_20 :: "nat \<Rightarrow> datetime" where
  "naive_2026_01_20 h =
     \<lparr>year = 2026, month = 1, day = 20, hour = h, minute = 0, second = 0,
      microsecond = 0, tzinfo = None\<rparr>"

definition con_sala :: state where
  "con_sala =
     \<lparr>salas = [(1, \<lparr>SalaOut.id = 1, nombre = ''Sala A'', capacidad = 4,
                    ubicacion = ''Piso 1''\<rparr>)],
      reservas = [], next_sala_id = 2, next_reserva_id = 1\<rparr>"

definition con_reserva :: "string \<Rightarrow> state" where
  "con_reserva fin =
     con_sala\<lparr>reservas := [(1, \<lparr>ReservaOut.id = 1, sala_id = 1, nombre_solicitante = ''Ana'',
                                 fecha_inicio = ''2026-01-20T10:00:00'', fecha_fin = fin\<rparr>)],
              next_reserva_id := 2\<rparr>"

definition dos_salas :: state where
  "dos_salas =
     \<lparr>salas = [(1, \<lparr>SalaOut.id = 1, nombre = ''Sala A'', capacidad = 4, ubicacion = ''Piso 1''\<rparr>),
               (2, \<lparr>SalaOut.id = 2, nombre = ''Sala B'', capacidad = 8, ubicacion = ''Piso 2''\<rparr>)],
      reservas =
        [(1, \<lparr>ReservaOut.id = 1, sala_id = 1, nombre_solicitante = ''Ana'',
              fecha_inicio = ''2026-01-20T10:00:00'', fecha_fin = ''2026-01-20T11:00:00''\<rparr>),
         (2, \<lparr>ReservaOut.id = 2, sala_id = 2, nombre_solicitante = ''Luis'',
              fecha_inicio = ''2026-01-20T10:00:00'', fecha_fin = ''2026-01-20T12:00:00''\<rparr>),
         (3, \<lparr>ReservaOut.id = 3, sala_id = 1, nombre_solicitante = ''Eva'',
              fecha_inicio = ''2026-01-20T11:00:00'', fecha_fin = ''2026-01-20T12:00:00''\<rparr>)],
      next_sala_id = 3, next_reserva_id = 4\<rparr>"

section \<open>Properties\<close>

subsection \<open>Association lists\<close>

lemma set_update_subset: "set (AList.update k v al) \<subseteq> insert (k, v) (set al)"
  by (induction al) auto

lemma fold_delete_filter:
  "fold AList.delete ks al = filter (\<lambda>(k, v). k \<notin> set ks) al"
proof (induction ks arbitrary: al)
  case Nil
  then show ?case by simp
next
  case (Cons k ks)
  have "filter (\<lambda>(k', v). k' \<notin> set ks) (AList.delete k al)
          = filter (\<lambda>(k', v). k' \<notin> set (k # ks)) al"
    by (induction al) (auto simp: AList.delete_eq)
  with Cons show ?case by simp
qed

lemma filter_keys_of_filter:
  assumes "distinct (map fst al)"
  shows "filter (\<lambda>(k, v). k \<notin> set (map fst (filter P al))) al = filter (\<lambda>kv. \<not> P kv) al"
proof (rule filter_cong[OF refl])
  fix kv assume mem: "kv \<in> set al"
  obtain k v where kv: "kv = (k, v)" by (cases kv)
  have "k \<in> set (map fst (filter P al)) \<longleftrightarrow> P (k, v)"
  proof
    assume "k \<in> set (map fst (filter P al))"
    then obtain v' where v': "(k, v') \<in> set al" "P (k, v')" by auto
    from assms mem v'(1) kv have "v' = v" by (meson eq_key_imp_eq_value)
    with v'(2) show "P (k, v)" by simp
  next
    assume "P (k, v)"
    with mem kv show "k \<in> set (map fst (filter P al))" by force
  qed
  then show "(case kv of (k, v) \<Rightarrow> k \<notin> set (map fst (filter P al))) = (\<not> P kv)"
    by (simp add: kv)
qed

lemma update_present_map:
  assumes "distinct (map fst al)" and "map_of al k = Some v"
  shows "AList.update k (f v) al = map (\<lambda>(k', x). if k' = k then (k', f x) else (k', x)) al"
  using assms
proof (induction al)
  case Nil
  then show ?case by simp
next
  case (Cons p al)
  obtain k' x where p: "p = (k', x)" by (cases p)
  show ?case
  proof (cases "k' = k")
    case True
    with Cons.prems p have "x = v" by simp
    moreover have "map (\<lambda>(k', x). if k' = k then (k', f x) else (k', x)) al = al"
      using Cons.prems(1) p True by (intro map_idI) (auto simp: rev_image_eqI)
    ultimately show ?thesis using p True by simp
  next
    case False
    with Cons p show ?thesis by simp
  qed
qed

lemma has_key_update: "has_key (AList.update k v al) k' = (k' = k \<or> has_key al k')"
  using AList.dom_update[of k v al] by (auto simp: has_key_def)

lemma list_all_update:
  "list_all P al \<Longrightarrow> P (k, v) \<Longrightarrow> list_all P (AList.update k v al)"
  using set_update_subset[of k v al] by (auto simp: list_all_iff)

lemma list_all_fold_delete: "list_all P al \<Longrightarrow> list_all P (fold AList.delete ks al)"
  by (auto simp: fold_delete_filter list_all_iff)

subsection \<open>What a handler can do to the state\<close>

lemma parse_iso_Inr: "parse_iso fromiso s = Inr d \<Longrightarrow> fromiso s \<noteq> None"
  by (auto simp: parse_iso_def split: option.splits)

lemma parse_iso_Inl: "parse_iso fromiso s = Inl e \<Longrightarrow> fromiso s = None \<and> e = HTTPException 400 fecha_invalida"
  by (auto simp: parse_iso_def split: option.splits)

lemma dt_le_Inl: "dt_le a b = Inl e \<Longrightarrow> e = TypeError"
  by (auto simp: dt_le_def split: option.splits)

lemma crear_reserva_state:
  "fst (crear_reserva fromiso st p) = st
   \<or> (has_key (salas st) (ReservaCreate.sala_id p)
      \<and> fromiso (ReservaCreate.fecha_inicio p) \<noteq> None
      \<and> fromiso (ReservaCreate.fecha_fin p) \<noteq> None
      \<and> fst (crear_reserva fromiso st p)
          = st\<lparr>reservas := AList.update (next_reserva_id st)
                   \<lparr>ReservaOut.id = next_reserva_id st,
                    ReservaOut.sala_id = ReservaCreate.sala_id p,
                    ReservaOut.nombre_solicitante = strip (ReservaCreate.nombre_solicitante p),
                    ReservaOut.fecha_inicio = ReservaCreate.fecha_inicio p,
                    ReservaOut.fecha_fin = ReservaCreate.fecha_fin p\<rparr>
                   (reservas st),
                next_reserva_id := next_reserva_id st + 1\<rparr>)"
  by (auto simp: crear_reserva_def Let_def dest: parse_iso_Inr
           split: sum.splits bool.splits)

lemma modificar_reserva_state:
  "fst (modificar_reserva fromiso st rid p) = st
   \<or> (\<exists>r. map_of (reservas st) rid = Some r
          \<and> fromiso (ReservaPatch.fecha_fin p) \<noteq> None
          \<and> fst (modificar_reserva fromiso st rid p)
              = st\<lparr>reservas := AList.update rid
                                  (r\<lparr>ReservaOut.fecha_fin := ReservaPatch.fecha_fin p\<rparr>)
                                  (reservas st)\<rparr>)"
  by (auto simp: modificar_reserva_def Let_def dest: parse_iso_Inr
           split: option.splits sum.splits bool.splits)

text \<open>
  No handler puts a key twice into a store, so every state reached from the empty one
  is made of two dictionaries.
\<close>

lemma dict_ok_crear_sala: "dict_ok st \<Longrightarrow> dict_ok (fst (crear_sala st p))"
  by (simp add: crear_sala_def dict_ok_def Let_def AList.distinct_update)

lemma dict_ok_eliminar_sala: "dict_ok st \<Longrightarrow> dict_ok (fst (eliminar_sala st sid))"
  by (simp add: eliminar_sala_def dict_ok_def Let_def AList.distinct_delete
        fold_delete_filter distinct_map_filter)

lemma dict_ok_crear_reserva: "dict_ok st \<Longrightarrow> dict_ok (fst (crear_reserva fromiso st p))"
  using crear_reserva_state[of fromiso st p] by (auto simp: dict_ok_def AList.distinct_update)

lemma dict_ok_modificar_reserva: "dict_ok st \<Longrightarrow> dict_ok (fst (modificar_reserva fromiso st rid p))"
  using modificar_reserva_state[of fromiso st rid p] by (auto simp: dict_ok_def AList.distinct_update)

lemma dict_ok_cancelar_reserva: "dict_ok st \<Longrightarrow> dict_ok (fst (cancelar_reserva st rid))"
  by (simp add: cancelar_reserva_def dict_ok_def AList.distinct_delete)

lemma dict_ok_serve: "dict_ok st \<Longrightarrow> dict_ok (fst (serve fromiso st r))"
  by (cases r)
     (simp_all add: dict_ok_crear_sala dict_ok_eliminar_sala dict_ok_crear_reserva
        dict_ok_modificar_reserva dict_ok_cancelar_reserva listar_salas_def obtener_sala_def
        historial_reservas_def Let_def split: option.splits)

lemma dict_ok_run: "dict_ok (run fromiso init rs)"
proof -
  have "dict_ok st \<Longrightarrow> dict_ok (run fromiso st rs)" for st
    by (induction rs arbitrary: st) (simp_all add: dict_ok_serve)
  then show ?thesis by (simp add: dict_ok_def init_def)
qed

subsection \<open>Evaluating the example data\<close>

lemmas parse_defs = fromisoformat_def utf8_def find_isoformat_datetime_separator_def
  parse_isoformat_date_def parse_isoformat_week_def parse_isoformat_time_def
  parse_hh_mm_ss_ff_def parse_digits_def skip_digits_def byte_at_def is_digit_def
  tzinfo_from_isoformat_results_def check_fields_def days_in_month_def is_leap_def

lemmas cmp_defs = dt_le_def wall_us_def ymd2ord_def days_before_year_def
  days_before_month_def days_in_month_def is_leap_def timedelta_us_def

lemmas str_defs = strip_def lower_def isspace_def lower_char_def

lemma parse_09: "parse_iso fromisoformat ''2026-01-20T09:00:00'' = Inr (naive_2026_01_20 9)"
  by (simp add: parse_iso_def naive_2026_01_20_def parse_defs)

lemma parse_10: "parse_iso fromisoformat ''2026-01-20T10:00:00'' = Inr (naive_2026_01_20 10)"
  by (simp add: parse_iso_def naive_2026_01_20_def parse_defs)

lemma parse_11: "parse_iso fromisoformat ''2026-01-20T11:00:00'' = Inr (naive_2026_01_20 11)"
  by (simp add: parse_iso_def naive_2026_01_20_def parse_defs)

lemma parse_12: "parse_iso fromisoformat ''2026-01-20T12:00:00'' = Inr (naive_2026_01_20 12)"
  by (simp add: parse_iso_def naive_2026_01_20_def parse_defs)

lemma parse_10_utc:
  "parse_iso fromisoformat ''2026-01-20T10:00:00+00:00'' = Inr ((naive_2026_01_20 10)\<lparr>tzinfo := Some 0\<rparr>)"
  by (simp add: parse_iso_def naive_2026_01_20_def parse_defs)

lemma parse_garbage: "fromisoformat ''garbage'' = None"
  by (simp add: parse_defs)

text \<open>
  Inputs outside the grammar of the older interpreters: the letter \<open>Z\<close>, a fraction of
  one digit, the basic format without separators, and an offset of half a second, which
  is UTC.
\<close>

lemma parse_zulu:
  "parse_iso fromisoformat ''2026-01-20T10:00:00Z''
     = Inr ((naive_2026_01_20 10)\<lparr>tzinfo := Some 0\<rparr>)"
  by (simp add: parse_iso_def naive_2026_01_20_def parse_defs)

lemma parse_short_fraction:
  "parse_iso fromisoformat ''2026-01-20T10:00:00.5''
     = Inr ((naive_2026_01_20 10)\<lparr>microsecond := 500000\<rparr>)"
  by (simp add: parse_iso_def naive_2026_01_20_def parse_defs)

lemma parse_basic_format:
  "parse_iso fromisoformat ''20260120T100000'' = Inr (naive_2026_01_20 10)"
  by (simp add: parse_iso_def naive_2026_01_20_def parse_defs)

lemma parse_subsecond_offset:
  "parse_iso fromisoformat ''2026-01-20T10:00:00+00:00:00.500000''
     = Inr ((naive_2026_01_20 10)\<lparr>tzinfo := Some 0\<rparr>)"
  by (simp add: parse_iso_def naive_2026_01_20_def parse_defs)

lemma dt_le_naive:
  "dt_le (naive_2026_01_20 h) (naive_2026_01_20 h') = Inr (h \<le> h')"
  by (simp add: naive_2026_01_20_def cmp_defs)

lemma dt_le_mixed:
  "dt_le (naive_2026_01_20 h) ((naive_2026_01_20 h')\<lparr>tzinfo := Some off\<rparr>) = Inl TypeError"
  by (simp add: naive_2026_01_20_def dt_le_def)

lemma dt_le_utc:
  "dt_le ((naive_2026_01_20 h)\<lparr>tzinfo := Some 0\<rparr>) ((naive_2026_01_20 h')\<lparr>tzinfo := Some 0\<rparr>)
     = Inr (h \<le> h')"
  by (simp add: naive_2026_01_20_def cmp_defs)

text \<open>
  A start stored with the offset of half a second is 10:00 UTC, so a new end of 10:00 UTC
  does not follow it.
\<close>

lemma patch_subsecond_offset:
  "snd (modificar_reserva fromisoformat
          (con_sala\<lparr>reservas :=
             [(1, \<lparr>ReservaOut.id = 1, sala_id = 1, nombre_solicitante = ''Ana'',
                   fecha_inicio = ''2026-01-20T10:00:00+00:00:00.500000'',
                   fecha_fin = ''2026-01-20T11:00:00Z''\<rparr>)],
             next_reserva_id := 2\<rparr>)
          1 \<lparr>ReservaPatch.fecha_fin = ''2026-01-20T10:00:00Z''\<rparr>)
     = Inl fin_no_mayor"
  by (simp add: modificar_reserva_def con_sala_def parse_subsecond_offset parse_zulu dt_le_utc)

lemma strip_sala_a: "strip ''Sala A'' = ''Sala A''"
  by (simp add: str_defs)

lemma strip_piso_1: "strip ''Piso 1'' = ''Piso 1''"
  by (simp add: str_defs)

lemma strip_ana: "strip ''Ana'' = ''Ana''"
  by (simp add: str_defs)

lemma parse_iso_garbage: "parse_iso fromisoformat ''garbage'' = Inl (HTTPException 400 fecha_invalida)"
  by (simp add: parse_iso_def parse_garbage)

lemma lower_strip_sala_a: "lower (strip ''Sala A'') = ''sala a''"
  by (simp add: str_defs)

lemma lower_strip_sala_a_upper: "lower (strip ''  SALA a '') = ''sala a''"
  by (simp add: str_defs)

lemma lower_strip_sala_b: "lower (strip ''Sala B'') = ''sala b''"
  by (simp add: str_defs)

lemma strip_sala_b: "strip ''Sala B'' = ''Sala B''"
  by (simp add: str_defs)

lemma strip_piso_2: "strip ''Piso 2'' = ''Piso 2''"
  by (simp add: str_defs)

lemma strip_blank: "strip '' '' = []"
  by (simp add: str_defs)

lemma post_sala_a: "serve fromiso init (PostSalas sala_a) = (con_sala, Inr (201, IdMensaje 1 ''Creado''))"
  by (simp add: crear_sala_def sala_a_def init_def con_sala_def SalaCreate_valid_def
        strip_sala_a strip_piso_1)

lemma post_reserva_ana:
  "serve fromisoformat con_sala (PostReservas reserva_ana)
     = (con_reserva ''2026-01-20T11:00:00'', Inr (201, IdMensaje 1 ''Creado''))"
  by (simp add: crear_reserva_def reserva_ana_def con_sala_def con_reserva_def
        ReservaCreate_valid_def has_key_def parse_10 parse_11 dt_le_naive strip_ana)

lemma patch_09:
  "serve fromisoformat (con_reserva ''2026-01-20T11:00:00'')
         (PatchReserva 1 \<lparr>ReservaPatch.fecha_fin = ''2026-01-20T09:00:00''\<rparr>)
     = (con_reserva ''2026-01-20T11:00:00'', Inl fin_no_mayor)"
  by (simp add: modificar_reserva_def con_sala_def con_reserva_def parse_10 parse_09 dt_le_naive)

lemma patch_12:
  "serve fromisoformat (con_reserva ''2026-01-20T11:00:00'')
         (PatchReserva 1 \<lparr>ReservaPatch.fecha_fin = ''2026-01-20T12:00:00''\<rparr>)
     = (con_reserva ''2026-01-20T12:00:00'',
        Inr (200, IdMensajeFechaFin 1 ''Actualizado'' ''2026-01-20T12:00:00''))"
  by (simp add: modificar_reserva_def con_sala_def con_reserva_def parse_10 parse_12 dt_le_naive)

lemma delete_sala_1:
  "serve fromiso (con_reserva fin) (DeleteSala 1)
     = (init\<lparr>next_sala_id := 2, next_reserva_id := 2\<rparr>, Inr (204, NoContent))"
  by (simp add: eliminar_sala_def con_sala_def con_reserva_def has_key_def init_def
        AList.delete_eq)

lemma run_sala_reserva:
  "run fromisoformat init [PostSalas sala_a, PostReservas reserva_ana] = con_reserva ''2026-01-20T11:00:00''"
  by (simp add: post_sala_a post_reserva_ana del: serve.simps)

subsection \<open>Referential integrity\<close>

lemma ref_crear_sala: "ref_integrity st \<Longrightarrow> ref_integrity (fst (crear_sala st p))"
  by (auto simp: crear_sala_def ref_integrity_def Let_def has_key_update list_all_iff)

lemma ref_eliminar_sala: "ref_integrity st \<Longrightarrow> ref_integrity (fst (eliminar_sala st sid))"
proof (cases "has_key (salas st) sid")
  case False
  assume "ref_integrity st"
  with False show ?thesis by (simp add: eliminar_sala_def)
next
  case True
  assume inv: "ref_integrity st"
  have "has_key (AList.delete sid (salas st)) (ReservaOut.sala_id r)"
    if "(rid, r) \<in> set (reservas st)" and "ReservaOut.sala_id r \<noteq> sid" for rid r
  proof -
    from inv that(1) have "has_key (salas st) (ReservaOut.sala_id r)"
      by (auto simp: ref_integrity_def list_all_iff)
    with that(2) show ?thesis
      by (auto simp: has_key_def AList.delete_eq)
  qed
  moreover have "ReservaOut.sala_id r \<noteq> sid"
    if "(rid, r) \<in> set (reservas st)"
      and "rid \<notin> set (map fst (filter (\<lambda>(rid, r). ReservaOut.sala_id r = sid) (reservas st)))"
    for rid r
    using that by force
  ultimately show ?thesis using True
    by (auto simp: eliminar_sala_def Let_def ref_integrity_def fold_delete_filter list_all_iff)
qed

lemma ref_crear_reserva: "ref_integrity st \<Longrightarrow> ref_integrity (fst (crear_reserva fromiso st p))"
  using crear_reserva_state[of fromiso st p]
  by (auto simp: ref_integrity_def intro!: list_all_update)

lemma ref_modificar_reserva:
  "ref_integrity st \<Longrightarrow> ref_integrity (fst (modificar_reserva fromiso st rid p))"
proof -
  assume inv: "ref_integrity st"
  from modificar_reserva_state[of fromiso st rid p] show ?thesis
  proof
    assume "fst (modificar_reserva fromiso st rid p) = st"
    with inv show ?thesis by simp
  next
    assume "\<exists>r. map_of (reservas st) rid = Some r
          \<and> fromiso (ReservaPatch.fecha_fin p) \<noteq> None
          \<and> fst (modificar_reserva fromiso st rid p)
              = st\<lparr>reservas := AList.update rid
                                  (r\<lparr>ReservaOut.fecha_fin := ReservaPatch.fecha_fin p\<rparr>)
                                  (reservas st)\<rparr>"
    then obtain r where r: "map_of (reservas st) rid = Some r"
      and st': "fst (modificar_reserva fromiso st rid p)
              = st\<lparr>reservas := AList.update rid
                                  (r\<lparr>ReservaOut.fecha_fin := ReservaPatch.fecha_fin p\<rparr>)
                                  (reservas st)\<rparr>"
      by blast
    from r have "(rid, r) \<in> set (reservas st)" by (rule map_of_SomeD)
    with inv have "has_key (salas st) (ReservaOut.sala_id r)"
      by (auto simp: ref_integrity_def list_all_iff)
    with inv show ?thesis
      unfolding st' ref_integrity_def by (auto intro!: list_all_update)
  qed
qed

lemma ref_cancelar_reserva:
  "ref_integrity st \<Longrightarrow> ref_integrity (fst (cancelar_reserva st rid))"
  by (auto simp: cancelar_reserva_def ref_integrity_def list_all_iff AList.delete_eq)

lemma ref_serve: "ref_integrity st \<Longrightarrow> ref_integrity (fst (serve fromiso st r))"
  by (cases r)
     (simp_all add: ref_crear_sala ref_eliminar_sala ref_crear_reserva ref_modificar_reserva
        ref_cancelar_reserva listar_salas_def obtener_sala_def historial_reservas_def Let_def
        split: option.splits)

lemma ref_run: "ref_integrity st \<Longrightarrow> ref_integrity (run fromiso st rs)"
  by (induction rs arbitrary: st) (simp_all add: ref_serve)

text \<open>
  C1. Starting from the empty state, after every sequence of requests, and whatever the
  parser is, every reservation in the reservation store names a room that is a key of
  the room store.
\<close>

theorem referential_integrity: "ref_integrity (run fromiso init rs)"
  by (rule ref_run) (simp add: ref_integrity_def init_def)

theorem referential_integrity_witness:
  "reservas (run fromisoformat init [PostSalas sala_a, PostReservas reserva_ana]) \<noteq> []
   \<and> ref_integrity (run fromisoformat init [PostSalas sala_a, PostReservas reserva_ana])"
  using referential_integrity[of fromisoformat "[PostSalas sala_a, PostReservas reserva_ana]"]
  by (simp add: run_sala_reserva con_reserva_def del: run.simps)

subsection \<open>Deleting a room\<close>

text \<open>
  C2. In a state whose reservation store has no key twice, deleting a room that is
  present removes that room and exactly the reservations of that room, keeps every other
  room, every other reservation and both counters, and answers 204 with an empty body;
  deleting a room that is absent raises the 404 error and leaves the state as it was.
\<close>

theorem eliminar_sala_cascade:
  assumes "distinct (map fst (reservas st))"
  shows "(has_key (salas st) sid \<longrightarrow>
            eliminar_sala st sid =
              (st\<lparr>salas := filter (\<lambda>(k, s). k \<noteq> sid) (salas st),
                  reservas := filter (\<lambda>(k, r). ReservaOut.sala_id r \<noteq> sid) (reservas st)\<rparr>,
               Inr (204, NoContent)))
       \<and> (\<not> has_key (salas st) sid \<longrightarrow>
            eliminar_sala st sid = (st, Inl (HTTPException 404 ''Sala no encontrada'')))"
proof -
  have "fold AList.delete
          (map fst (filter (\<lambda>(rid, r). ReservaOut.sala_id r = sid) (reservas st)))
          (reservas st)
        = filter (\<lambda>(k, r). ReservaOut.sala_id r \<noteq> sid) (reservas st)"
    using filter_keys_of_filter[OF assms, of "\<lambda>(rid, r). ReservaOut.sala_id r = sid"]
    by (simp add: fold_delete_filter split_def)
  moreover have "AList.delete sid (salas st) = filter (\<lambda>(k, s). k \<noteq> sid) (salas st)"
    by (simp add: AList.delete_eq split_def eq_commute)
  ultimately show ?thesis
    by (simp add: eliminar_sala_def Let_def)
qed

theorem eliminar_sala_cascade_witness:
  "distinct (map fst (reservas dos_salas))
   \<and> has_key (salas dos_salas) 1
   \<and> eliminar_sala dos_salas 1 =
       (dos_salas\<lparr>salas := [(2, \<lparr>SalaOut.id = 2, nombre = ''Sala B'', capacidad = 8,
                                 ubicacion = ''Piso 2''\<rparr>)],
                  reservas := [(2, \<lparr>ReservaOut.id = 2, sala_id = 2, nombre_solicitante = ''Luis'',
                                    fecha_inicio = ''2026-01-20T10:00:00'',
                                    fecha_fin = ''2026-01-20T12:00:00''\<rparr>)]\<rparr>,
        Inr (204, NoContent))
   \<and> \<not> has_key (salas dos_salas) 7
   \<and> eliminar_sala dos_salas 7 = (dos_salas, Inl (HTTPException 404 ''Sala no encontrada''))"
proof -
  have d: "distinct (map fst (reservas dos_salas))"
    by (simp add: dos_salas_def)
  show ?thesis
    using d eliminar_sala_cascade[OF d, of 1] eliminar_sala_cascade[OF d, of 7]
    by (simp add: dos_salas_def has_key_def)
qed

subsection \<open>Creating a reservation\<close>

text \<open>
  C3. The specification has a reservation request whose room exists and whose two
  date-times parse either fail with the interval error or succeed. The code compares
  the two parsed values with \<open><=\<close>; when the start carries a UTC offset and the end
  does not, that comparison raises \<^verbatim>\<open>TypeError\<close>, which nothing catches: the
  request below, sent after the room of the example was created, ends that way.
\<close>

theorem crear_reserva_mixed_offsets:
  "has_key (salas (fst (serve fromisoformat init (PostSalas sala_a)))) 1
   \<and> parse_iso fromisoformat ''2026-01-20T10:00:00+00:00''
       = Inr ((naive_2026_01_20 10)\<lparr>tzinfo := Some 0\<rparr>)
   \<and> parse_iso fromisoformat ''2026-01-20T11:00:00'' = Inr (naive_2026_01_20 11)
   \<and> serve fromisoformat (fst (serve fromisoformat init (PostSalas sala_a)))
        (PostReservas \<lparr>ReservaCreate.sala_id = 1, nombre_solicitante = ''Ana'',
                       fecha_inicio = ''2026-01-20T10:00:00+00:00'',
                       fecha_fin = ''2026-01-20T11:00:00''\<rparr>)
       = (fst (serve fromisoformat init (PostSalas sala_a)), Inl TypeError)"
  by (simp add: post_sala_a parse_10_utc parse_11 dt_le_mixed crear_reserva_def
        ReservaCreate_valid_def has_key_def con_sala_def del: serve.simps(3))

text \<open>
  C6, in the form the code satisfies. Whatever the parser \<open>fromiso\<close> is: when it rejects
  the start or the end of a reservation request, the state is left as it was, and the
  error is the invalid-date error if the room exists and the unknown-room error if it
  does not, because the room is looked up first.
\<close>

theorem crear_reserva_unparsable:
  assumes "fromiso (ReservaCreate.fecha_inicio p) = None
           \<or> fromiso (ReservaCreate.fecha_fin p) = None"
  shows "crear_reserva fromiso st p =
           (st, Inl (if has_key (salas st) (ReservaCreate.sala_id p)
                     then HTTPException 400 fecha_invalida
                     else HTTPException 400 ''sala_id no existe''))"
  using assms
  by (auto simp: crear_reserva_def parse_iso_def split: option.splits)

theorem crear_reserva_unparsable_witness:
  "fromisoformat ''garbage'' = None
   \<and> crear_reserva fromisoformat con_sala (reserva_ana\<lparr>ReservaCreate.fecha_fin := ''garbage''\<rparr>)
       = (con_sala, Inl (HTTPException 400 fecha_invalida))
   \<and> crear_reserva fromisoformat init (reserva_ana\<lparr>ReservaCreate.fecha_fin := ''garbage''\<rparr>)
       = (init, Inl (HTTPException 400 ''sala_id no existe''))"
proof -
  have h: "fromisoformat (ReservaCreate.fecha_inicio
                            (reserva_ana\<lparr>ReservaCreate.fecha_fin := ''garbage''\<rparr>)) = None
           \<or> fromisoformat (ReservaCreate.fecha_fin
                              (reserva_ana\<lparr>ReservaCreate.fecha_fin := ''garbage''\<rparr>)) = None"
    by (simp add: parse_garbage)
  show ?thesis
    using crear_reserva_unparsable[OF h, of con_sala] crear_reserva_unparsable[OF h, of init]
    by (simp add: parse_garbage con_sala_def init_def has_key_def reserva_ana_def)
qed

text \<open>
  C6 in its original form asks for the invalid-date error also when the room does not
  exist. With room 9999 and a start that does not parse, the error is the unknown-room
  error instead.
\<close>

theorem crear_reserva_unknown_room_first:
  "fromisoformat ''garbage'' = None
   \<and> serve fromisoformat init
        (PostReservas \<lparr>ReservaCreate.sala_id = 9999, nombre_solicitante = ''Ana'',
                       fecha_inicio = ''garbage'', fecha_fin = ''2026-01-20T11:00:00''\<rparr>)
       = (init, Inl (HTTPException 400 ''sala_id no existe''))
   \<and> HTTPException 400 ''sala_id no existe'' \<noteq> HTTPException 400 fecha_invalida"
  by (simp add: parse_garbage ReservaCreate_valid_def crear_reserva_def has_key_def init_def
        fecha_invalida_def)

subsection \<open>Creating a room\<close>

text \<open>
  C4. Creating a room fails with the duplicate-name error exactly when some stored room
  has the same name after trimming and lower-casing; otherwise the room is stored under
  the next id with its name and location trimmed, and that id is returned. Creating
  "Alpha" and then "  alpha " fails with the duplicate-name error.
\<close>

theorem crear_sala_duplicate_name:
  "((snd (crear_sala st p) = Inl (HTTPException 400 ''Nombre duplicado''))
      = (\<exists>s \<in> snd ` set (salas st).
           lower (strip (SalaOut.nombre s)) = lower (strip (SalaCreate.nombre p))))
   \<and> (snd (crear_sala st p) \<noteq> Inl (HTTPException 400 ''Nombre duplicado'') \<longrightarrow>
        crear_sala st p =
          (st\<lparr>salas := AList.update (next_sala_id st)
                          \<lparr>SalaOut.id = next_sala_id st,
                           SalaOut.nombre = strip (SalaCreate.nombre p),
                           SalaOut.capacidad = SalaCreate.capacidad p,
                           SalaOut.ubicacion = strip (SalaCreate.ubicacion p)\<rparr>
                          (salas st),
               next_sala_id := next_sala_id st + 1\<rparr>,
           Inr (201, IdMensaje (next_sala_id st) ''Creado''))
        \<and> map_of (salas (fst (crear_sala st p))) (next_sala_id st)
            = Some \<lparr>SalaOut.id = next_sala_id st,
                    SalaOut.nombre = strip (SalaCreate.nombre p),
                    SalaOut.capacidad = SalaCreate.capacidad p,
                    SalaOut.ubicacion = strip (SalaCreate.ubicacion p)\<rparr>)
   \<and> snd (crear_sala
            (fst (crear_sala init
                    \<lparr>SalaCreate.nombre = ''Alpha'', capacidad = 1, ubicacion = ''Piso 1''\<rparr>))
            \<lparr>SalaCreate.nombre = ''  alpha '', capacidad = 1, ubicacion = ''Piso 2''\<rparr>)
       = Inl (HTTPException 400 ''Nombre duplicado'')"
proof (intro conjI)
  show "(snd (crear_sala st p) = Inl (HTTPException 400 ''Nombre duplicado''))
      = (\<exists>s \<in> snd ` set (salas st).
           lower (strip (SalaOut.nombre s)) = lower (strip (SalaCreate.nombre p)))"
    by (auto simp: crear_sala_def Let_def list_ex_iff)
  show "snd (crear_sala st p) \<noteq> Inl (HTTPException 400 ''Nombre duplicado'') \<longrightarrow>
        crear_sala st p =
          (st\<lparr>salas := AList.update (next_sala_id st)
                          \<lparr>SalaOut.id = next_sala_id st,
                           SalaOut.nombre = strip (SalaCreate.nombre p),
                           SalaOut.capacidad = SalaCreate.capacidad p,
                           SalaOut.ubicacion = strip (SalaCreate.ubicacion p)\<rparr>
                          (salas st),
               next_sala_id := next_sala_id st + 1\<rparr>,
           Inr (201, IdMensaje (next_sala_id st) ''Creado''))
        \<and> map_of (salas (fst (crear_sala st p))) (next_sala_id st)
            = Some \<lparr>SalaOut.id = next_sala_id st,
                    SalaOut.nombre = strip (SalaCreate.nombre p),
                    SalaOut.capacidad = SalaCreate.capacidad p,
                    SalaOut.ubicacion = strip (SalaCreate.ubicacion p)\<rparr>"
    by (simp add: crear_sala_def Let_def AList.update_conv')
  show "snd (crear_sala
            (fst (crear_sala init
                    \<lparr>SalaCreate.nombre = ''Alpha'', capacidad = 1, ubicacion = ''Piso 1''\<rparr>))
            \<lparr>SalaCreate.nombre = ''  alpha '', capacidad = 1, ubicacion = ''Piso 2''\<rparr>)
       = Inl (HTTPException 400 ''Nombre duplicado'')"
    by (simp add: crear_sala_def init_def str_defs)
qed

theorem crear_sala_duplicate_name_witness:
  "snd (crear_sala con_sala
          \<lparr>SalaCreate.nombre = ''  SALA a '', capacidad = 2, ubicacion = ''Piso 2''\<rparr>)
     = Inl (HTTPException 400 ''Nombre duplicado'')
   \<and> (\<exists>s \<in> snd ` set (salas con_sala).
         lower (strip (SalaOut.nombre s)) = lower (strip ''  SALA a ''))
   \<and> snd (crear_sala con_sala
            \<lparr>SalaCreate.nombre = ''Sala B'', capacidad = 8, ubicacion = ''Piso 2''\<rparr>)
       \<noteq> Inl (HTTPException 400 ''Nombre duplicado'')
   \<and> crear_sala con_sala
        \<lparr>SalaCreate.nombre = ''Sala B'', capacidad = 8, ubicacion = ''Piso 2''\<rparr>
       = (con_sala\<lparr>salas := salas con_sala
                      @ [(2, \<lparr>SalaOut.id = 2, nombre = ''Sala B'', capacidad = 8,
                               ubicacion = ''Piso 2''\<rparr>)],
                   next_sala_id := 3\<rparr>,
          Inr (201, IdMensaje 2 ''Creado''))"
proof -
  have dup: "\<exists>s \<in> snd ` set (salas con_sala).
         lower (strip (SalaOut.nombre s)) = lower (strip ''  SALA a '')"
    by (simp add: con_sala_def lower_strip_sala_a lower_strip_sala_a_upper)
  have nodup: "\<not> (\<exists>s \<in> snd ` set (salas con_sala).
         lower (strip (SalaOut.nombre s)) = lower (strip ''Sala B''))"
    by (simp add: con_sala_def lower_strip_sala_a lower_strip_sala_b)
  show ?thesis
    using dup nodup
      crear_sala_duplicate_name[of con_sala
        "\<lparr>SalaCreate.nombre = ''  SALA a '', capacidad = 2, ubicacion = ''Piso 2''\<rparr>"]
      crear_sala_duplicate_name[of con_sala
        "\<lparr>SalaCreate.nombre = ''Sala B'', capacidad = 8, ubicacion = ''Piso 2''\<rparr>"]
    by (simp add: con_sala_def strip_sala_b strip_piso_2)
qed

text \<open>
  C5. The specification has a name made of white space only rejected. \<^verbatim>\<open>SalaCreate\<close>
  asks for a length of at least one, before any trimming, so the name of one blank
  passes, and \<open>crear_sala\<close> stores the room with the empty name.
\<close>

theorem crear_sala_blank_name:
  "SalaCreate_valid \<lparr>SalaCreate.nombre = '' '', capacidad = 1, ubicacion = ''Piso 1''\<rparr>
   \<and> serve fromiso init (PostSalas \<lparr>SalaCreate.nombre = '' '', capacidad = 1, ubicacion = ''Piso 1''\<rparr>)
       = (init\<lparr>salas := [(1, \<lparr>SalaOut.id = 1, nombre = [], capacidad = 1,
                               ubicacion = ''Piso 1''\<rparr>)],
               next_sala_id := 2\<rparr>,
          Inr (201, IdMensaje 1 ''Creado''))"
  by (simp add: SalaCreate_valid_def crear_sala_def init_def strip_blank strip_piso_1)

subsection \<open>Changing the end of a reservation\<close>

text \<open>
  C7. Whatever the parser \<open>fromiso\<close> is: in a state whose reservation store has no key
  twice, for a stored reservation whose start it parses and a new end that it parses to
  a value not at or before that start, the patch replaces the end of that reservation
  and nothing else (the other fields of the reservation, the other reservations, the
  rooms and both counters stay), and the response carries the new end as it was
  supplied.
\<close>

theorem modificar_reserva_frame:
  assumes "distinct (map fst (reservas st))"
    and "map_of (reservas st) rid = Some r"
    and "parse_iso fromiso (ReservaOut.fecha_inicio r) = Inr inicio"
    and "parse_iso fromiso nueva = Inr fin"
    and "dt_le fin inicio = Inr False"
  shows "modificar_reserva fromiso st rid \<lparr>ReservaPatch.fecha_fin = nueva\<rparr> =
           (st\<lparr>reservas := map (\<lambda>(k, x). if k = rid
                                          then (k, x\<lparr>ReservaOut.fecha_fin := nueva\<rparr>)
                                          else (k, x)) (reservas st)\<rparr>,
            Inr (200, IdMensajeFechaFin (ReservaOut.id r) ''Actualizado'' nueva))"
  using assms(2-5)
    update_present_map[OF assms(1,2), of "\<lambda>x. x\<lparr>ReservaOut.fecha_fin := nueva\<rparr>"]
  by (simp add: modificar_reserva_def Let_def)

theorem modificar_reserva_frame_witness:
  "distinct (map fst (reservas dos_salas))
   \<and> map_of (reservas dos_salas) 2
       = Some \<lparr>ReservaOut.id = 2, sala_id = 2, nombre_solicitante = ''Luis'',
               fecha_inicio = ''2026-01-20T10:00:00'', fecha_fin = ''2026-01-20T12:00:00''\<rparr>
   \<and> parse_iso fromisoformat ''2026-01-20T10:00:00'' = Inr (naive_2026_01_20 10)
   \<and> parse_iso fromisoformat ''2026-01-20T11:00:00'' = Inr (naive_2026_01_20 11)
   \<and> dt_le (naive_2026_01_20 11) (naive_2026_01_20 10) = Inr False
   \<and> modificar_reserva fromisoformat dos_salas 2 \<lparr>ReservaPatch.fecha_fin = ''2026-01-20T11:00:00''\<rparr> =
       (dos_salas\<lparr>reservas :=
          [(1, \<lparr>ReservaOut.id = 1, sala_id = 1, nombre_solicitante = ''Ana'',
                fecha_inicio = ''2026-01-20T10:00:00'', fecha_fin = ''2026-01-20T11:00:00''\<rparr>),
           (2, \<lparr>ReservaOut.id = 2, sala_id = 2, nombre_solicitante = ''Luis'',
                fecha_inicio = ''2026-01-20T10:00:00'', fecha_fin = ''2026-01-20T11:00:00''\<rparr>),
           (3, \<lparr>ReservaOut.id = 3, sala_id = 1, nombre_solicitante = ''Eva'',
                fecha_inicio = ''2026-01-20T11:00:00'', fecha_fin = ''2026-01-20T12:00:00''\<rparr>)]\<rparr>,
        Inr (200, IdMensajeFechaFin 2 ''Actualizado'' ''2026-01-20T11:00:00''))"
proof -
  have d: "distinct (map fst (reservas dos_salas))"
    by (simp add: dos_salas_def)
  have r: "map_of (reservas dos_salas) 2
       = Some \<lparr>ReservaOut.id = 2, sala_id = 2, nombre_solicitante = ''Luis'',
               fecha_inicio = ''2026-01-20T10:00:00'', fecha_fin = ''2026-01-20T12:00:00''\<rparr>"
    by (simp add: dos_salas_def)
  have i: "parse_iso fromisoformat (ReservaOut.fecha_inicio
             \<lparr>ReservaOut.id = 2, sala_id = 2, nombre_solicitante = ''Luis'',
              fecha_inicio = ''2026-01-20T10:00:00'', fecha_fin = ''2026-01-20T12:00:00''\<rparr>)
           = Inr (naive_2026_01_20 10)"
    by (simp add: parse_10)
  have c: "dt_le (naive_2026_01_20 11) (naive_2026_01_20 10) = Inr False"
    by (simp add: dt_le_naive)
  show ?thesis
    using d r c modificar_reserva_frame[OF d r i parse_11 c]
    by (simp add: parse_10 parse_11 dos_salas_def)
qed

subsection \<open>Failure leaves the state alone\<close>

text \<open>
  C8. Whenever one of the five mutating handlers, or a request as a whole, ends in an
  error, the state after the call is the state before it, whatever the parser is.
\<close>

theorem failure_leaves_state:
  "(isl (snd (crear_sala st ps)) \<longrightarrow> fst (crear_sala st ps) = st)
   \<and> (isl (snd (eliminar_sala st sid)) \<longrightarrow> fst (eliminar_sala st sid) = st)
   \<and> (isl (snd (crear_reserva fromiso st pr)) \<longrightarrow> fst (crear_reserva fromiso st pr) = st)
   \<and> (isl (snd (modificar_reserva fromiso st rid pp)) \<longrightarrow> fst (modificar_reserva fromiso st rid pp) = st)
   \<and> (isl (snd (cancelar_reserva st rid')) \<longrightarrow> fst (cancelar_reserva st rid') = st)
   \<and> (isl (snd (serve fromiso st req)) \<longrightarrow> fst (serve fromiso st req) = st)"
proof -
  have a: "isl (snd (crear_sala st ps)) \<longrightarrow> fst (crear_sala st ps) = st" for ps
    by (simp add: crear_sala_def Let_def)
  have b: "isl (snd (eliminar_sala st sid)) \<longrightarrow> fst (eliminar_sala st sid) = st" for sid
    by (simp add: eliminar_sala_def Let_def)
  have c: "isl (snd (crear_reserva fromiso st pr)) \<longrightarrow> fst (crear_reserva fromiso st pr) = st" for pr
    by (simp add: crear_reserva_def Let_def split: sum.splits bool.splits)
  have d: "isl (snd (modificar_reserva fromiso st rid pp)) \<longrightarrow> fst (modificar_reserva fromiso st rid pp) = st"
    for rid pp
    by (simp add: modificar_reserva_def Let_def split: option.splits sum.splits bool.splits)
  have e: "isl (snd (cancelar_reserva st rid')) \<longrightarrow> fst (cancelar_reserva st rid') = st"
    for rid'
    by (simp add: cancelar_reserva_def)
  have f: "isl (snd (serve fromiso st req)) \<longrightarrow> fst (serve fromiso st req) = st"
    using a b c d e
    by (cases req)
       (simp_all add: listar_salas_def obtener_sala_def historial_reservas_def Let_def
          split: option.splits)
  from a b c d e f show ?thesis by blast
qed

theorem failure_leaves_state_witness:
  "isl (snd (crear_sala dos_salas sala_a)) \<and> fst (crear_sala dos_salas sala_a) = dos_salas
   \<and> isl (snd (eliminar_sala dos_salas 7)) \<and> fst (eliminar_sala dos_salas 7) = dos_salas
   \<and> isl (snd (crear_reserva fromisoformat dos_salas (reserva_ana\<lparr>ReservaCreate.sala_id := 9999\<rparr>)))
   \<and> fst (crear_reserva fromisoformat dos_salas (reserva_ana\<lparr>ReservaCreate.sala_id := 9999\<rparr>)) = dos_salas
   \<and> isl (snd (modificar_reserva fromisoformat dos_salas 1
                 \<lparr>ReservaPatch.fecha_fin = ''2026-01-20T09:00:00''\<rparr>))
   \<and> fst (modificar_reserva fromisoformat dos_salas 1
            \<lparr>ReservaPatch.fecha_fin = ''2026-01-20T09:00:00''\<rparr>) = dos_salas
   \<and> isl (snd (cancelar_reserva dos_salas 7)) \<and> fst (cancelar_reserva dos_salas 7) = dos_salas
   \<and> isl (snd (serve fromisoformat dos_salas (PostSalas (sala_a\<lparr>SalaCreate.capacidad := 0\<rparr>))))
   \<and> fst (serve fromisoformat dos_salas (PostSalas (sala_a\<lparr>SalaCreate.capacidad := 0\<rparr>))) = dos_salas"
proof -
  have a: "isl (snd (crear_sala dos_salas sala_a))"
    by (simp add: crear_sala_def dos_salas_def sala_a_def lower_strip_sala_a)
  have b: "isl (snd (eliminar_sala dos_salas 7))"
    by (simp add: eliminar_sala_def dos_salas_def has_key_def)
  have c: "isl (snd (crear_reserva fromisoformat dos_salas (reserva_ana\<lparr>ReservaCreate.sala_id := 9999\<rparr>)))"
    by (simp add: crear_reserva_def dos_salas_def reserva_ana_def has_key_def)
  have d: "isl (snd (modificar_reserva fromisoformat dos_salas 1
                 \<lparr>ReservaPatch.fecha_fin = ''2026-01-20T09:00:00''\<rparr>))"
    by (simp add: modificar_reserva_def dos_salas_def parse_09 parse_10 dt_le_naive)
  have e: "isl (snd (cancelar_reserva dos_salas 7))"
    by (simp add: cancelar_reserva_def dos_salas_def has_key_def)
  have f: "isl (snd (serve fromisoformat dos_salas (PostSalas (sala_a\<lparr>SalaCreate.capacidad := 0\<rparr>))))"
    by (simp add: SalaCreate_valid_def sala_a_def)
  show ?thesis
    using a b c d e f
      failure_leaves_state[of dos_salas sala_a 7 fromisoformat
        "reserva_ana\<lparr>ReservaCreate.sala_id := 9999\<rparr>" 1
        "\<lparr>ReservaPatch.fecha_fin = ''2026-01-20T09:00:00''\<rparr>" 7
        "PostSalas (sala_a\<lparr>SalaCreate.capacidad := 0\<rparr>)"]
    by blast
qed

subsection \<open>The worked example\<close>

text \<open>
  C9. From the empty state: creating room "Sala A" returns id 1; creating Ana's
  reservation from 10:00 to 11:00 returns id 1; moving its end to 09:00 fails with the
  interval error, and the list of reservations still shows the end 11:00; moving it to
  12:00 succeeds and returns that end, and the list shows the end 12:00; deleting room 1
  answers 204, after which the list of all reservations and the list of rooms are empty
  and only the two counters tell the state from the initial one.
\<close>

theorem worked_example:
  "(let r1 = serve fromisoformat init (PostSalas sala_a);
        r2 = serve fromisoformat (fst r1) (PostReservas reserva_ana);
        r3 = serve fromisoformat (fst r2)
               (PatchReserva 1 \<lparr>ReservaPatch.fecha_fin = ''2026-01-20T09:00:00''\<rparr>);
        l3 = serve fromisoformat (fst r3) (GetReservas None);
        r4 = serve fromisoformat (fst l3)
               (PatchReserva 1 \<lparr>ReservaPatch.fecha_fin = ''2026-01-20T12:00:00''\<rparr>);
        l4 = serve fromisoformat (fst r4) (GetReservas None);
        r5 = serve fromisoformat (fst l4) (DeleteSala 1);
        l5 = serve fromisoformat (fst r5) (GetReservas None);
        s5 = serve fromisoformat (fst l5) GetSalas
    in snd r1 = Inr (201, IdMensaje 1 ''Creado'')
     \<and> snd r2 = Inr (201, IdMensaje 1 ''Creado'')
     \<and> snd r3 = Inl (HTTPException 400 ''fecha_fin debe ser mayor a fecha_inicio'')
     \<and> snd l3 = Inr (200, Reservas
                     [\<lparr>ReservaOut.id = 1, sala_id = 1, nombre_solicitante = ''Ana'',
                       fecha_inicio = ''2026-01-20T10:00:00'',
                       fecha_fin = ''2026-01-20T11:00:00''\<rparr>])
     \<and> snd r4 = Inr (200, IdMensajeFechaFin 1 ''Actualizado'' ''2026-01-20T12:00:00'')
     \<and> snd l4 = Inr (200, Reservas
                     [\<lparr>ReservaOut.id = 1, sala_id = 1, nombre_solicitante = ''Ana'',
                       fecha_inicio = ''2026-01-20T10:00:00'',
                       fecha_fin = ''2026-01-20T12:00:00''\<rparr>])
     \<and> snd r5 = Inr (204, NoContent)
     \<and> snd l5 = Inr (200, Reservas [])
     \<and> snd s5 = Inr (200, Salas [])
     \<and> fst s5 = \<lparr>salas = [], reservas = [], next_sala_id = 2, next_reserva_id = 2\<rparr>)"
proof -
  have get_reservas:
    "serve fromisoformat (con_reserva fin) (GetReservas None)
       = (con_reserva fin,
          Inr (200, Reservas
                 [\<lparr>ReservaOut.id = 1, sala_id = 1, nombre_solicitante = ''Ana'',
                   fecha_inicio = ''2026-01-20T10:00:00'', fecha_fin = fin\<rparr>]))" for fin
    by (simp add: historial_reservas_def con_reserva_def con_sala_def)
  have get_reservas_end:
    "serve fromisoformat (init\<lparr>next_sala_id := 2, next_reserva_id := 2\<rparr>) (GetReservas None)
       = (init\<lparr>next_sala_id := 2, next_reserva_id := 2\<rparr>, Inr (200, Reservas []))"
    by (simp add: historial_reservas_def init_def)
  have get_salas_end:
    "serve fromisoformat (init\<lparr>next_sala_id := 2, next_reserva_id := 2\<rparr>) GetSalas
       = (\<lparr>salas = [], reservas = [], next_sala_id = 2, next_reserva_id = 2\<rparr>,
          Inr (200, Salas []))"
    by (simp add: listar_salas_def init_def)
  show ?thesis
    by (simp only: Let_def post_sala_a post_reserva_ana patch_09 patch_12 delete_sala_1
          get_reservas get_reservas_end get_salas_end fst_conv snd_conv fin_no_mayor_def
          simp_thms)
qed

subsection \<open>Stored date-times parse\<close>

lemma fechas_crear_sala: "fechas_ok fromiso st \<Longrightarrow> fechas_ok fromiso (fst (crear_sala st p))"
  by (simp add: crear_sala_def fechas_ok_def Let_def)

lemma fechas_eliminar_sala: "fechas_ok fromiso st \<Longrightarrow> fechas_ok fromiso (fst (eliminar_sala st sid))"
  by (simp add: eliminar_sala_def fechas_ok_def Let_def list_all_fold_delete)

lemma fechas_crear_reserva: "fechas_ok fromiso st \<Longrightarrow> fechas_ok fromiso (fst (crear_reserva fromiso st p))"
  using crear_reserva_state[of fromiso st p]
  by (auto simp: fechas_ok_def intro!: list_all_update)

lemma fechas_modificar_reserva:
  assumes inv: "fechas_ok fromiso st"
  shows "fechas_ok fromiso (fst (modificar_reserva fromiso st rid p))"
proof -
  from modificar_reserva_state[of fromiso st rid p] show ?thesis
  proof (elim disjE exE conjE)
    assume "fst (modificar_reserva fromiso st rid p) = st"
    with inv show ?thesis by simp
  next
    fix r
    assume r: "map_of (reservas st) rid = Some r"
      and fin: "fromiso (ReservaPatch.fecha_fin p) \<noteq> None"
      and st': "fst (modificar_reserva fromiso st rid p)
              = st\<lparr>reservas := AList.update rid
                                  (r\<lparr>ReservaOut.fecha_fin := ReservaPatch.fecha_fin p\<rparr>)
                                  (reservas st)\<rparr>"
    from r have "(rid, r) \<in> set (reservas st)" by (rule map_of_SomeD)
    with inv have "fromiso (ReservaOut.fecha_inicio r) \<noteq> None"
      by (auto simp: fechas_ok_def list_all_iff)
    with inv fin show ?thesis
      unfolding st' fechas_ok_def by (auto intro!: list_all_update)
  qed
qed

lemma fechas_cancelar_reserva: "fechas_ok fromiso st \<Longrightarrow> fechas_ok fromiso (fst (cancelar_reserva st rid))"
  by (auto simp: cancelar_reserva_def fechas_ok_def list_all_iff AList.delete_eq)

lemma fechas_serve: "fechas_ok fromiso st \<Longrightarrow> fechas_ok fromiso (fst (serve fromiso st r))"
  by (cases r)
     (simp_all add: fechas_crear_sala fechas_eliminar_sala fechas_crear_reserva
        fechas_modificar_reserva fechas_cancelar_reserva listar_salas_def obtener_sala_def
        historial_reservas_def Let_def split: option.splits)

lemma fechas_run: "fechas_ok fromiso st \<Longrightarrow> fechas_ok fromiso (run fromiso st rs)"
  by (induction rs arbitrary: st) (simp_all add: fechas_serve)

lemma modificar_reserva_fecha_invalida:
  assumes inv: "fechas_ok fromiso st"
    and fails: "snd (modificar_reserva fromiso st rid p) = Inl (HTTPException 400 fecha_invalida)"
  shows "fromiso (ReservaPatch.fecha_fin p) = None"
proof (cases "map_of (reservas st) rid")
  case None
  with fails show ?thesis by (simp add: modificar_reserva_def)
next
  case (Some r)
  then have "(rid, r) \<in> set (reservas st)" by (rule map_of_SomeD)
  with inv obtain inicio where inicio: "parse_iso fromiso (ReservaOut.fecha_inicio r) = Inr inicio"
    by (auto simp: fechas_ok_def list_all_iff parse_iso_def)
  show ?thesis
  proof (cases "parse_iso fromiso (ReservaPatch.fecha_fin p)")
    case (Inl e)
    then show ?thesis by (simp add: parse_iso_Inl)
  next
    case (Inr fin)
    with Some inicio fails show ?thesis
      by (auto simp: modificar_reserva_def Let_def fin_no_mayor_def fecha_invalida_def
               split: sum.splits bool.splits dest: dt_le_Inl)
  qed
qed

text \<open>
  C10. Whatever the parser \<open>fromiso\<close> is: in every state reached from the empty one, it
  accepts the start and the end stored in every reservation; so when a patch fails
  there with the invalid-date error, it is the new end that it rejects.
\<close>

theorem stored_fechas_parse:
  "fechas_ok fromiso (run fromiso init rs)
   \<and> (snd (modificar_reserva fromiso (run fromiso init rs) rid p) = Inl (HTTPException 400 fecha_invalida)
        \<longrightarrow> fromiso (ReservaPatch.fecha_fin p) = None)"
proof -
  have "fechas_ok fromiso (run fromiso init rs)"
    by (rule fechas_run) (simp add: fechas_ok_def init_def)
  then show ?thesis
    by (blast intro: modificar_reserva_fecha_invalida)
qed

theorem stored_fechas_parse_witness:
  "fechas_ok fromisoformat (run fromisoformat init [PostSalas sala_a, PostReservas reserva_ana])
   \<and> reservas (run fromisoformat init [PostSalas sala_a, PostReservas reserva_ana]) \<noteq> []
   \<and> snd (modificar_reserva fromisoformat (run fromisoformat init [PostSalas sala_a, PostReservas reserva_ana]) 1
            \<lparr>ReservaPatch.fecha_fin = ''garbage''\<rparr>)
       = Inl (HTTPException 400 fecha_invalida)
   \<and> fromisoformat ''garbage'' = None"
proof -
  have fails: "snd (modificar_reserva fromisoformat (run fromisoformat init [PostSalas sala_a, PostReservas reserva_ana]) 1
            \<lparr>ReservaPatch.fecha_fin = ''garbage''\<rparr>)
       = Inl (HTTPException 400 fecha_invalida)"
    by (simp add: run_sala_reserva modificar_reserva_def con_reserva_def parse_10
          parse_iso_garbage del: run.simps)
  have nonempty: "reservas (run fromisoformat init [PostSalas sala_a, PostReservas reserva_ana]) \<noteq> []"
    by (simp add: run_sala_reserva con_reserva_def del: run.simps)
  show ?thesis
    using fails nonempty
      stored_fechas_parse[of fromisoformat "[PostSalas sala_a, PostReservas reserva_ana]" 1
        "\<lparr>ReservaPatch.fecha_fin = ''garbage''\<rparr>"]
    by simp
qed

end
